theory Spec2Isabelle
  imports Complex_Main "HOL-Library.Log_Nat" "HOL-Library.Multiset"
begin

section \<open>Python values shared by both games\<close>

text \<open>
  The exceptions the two programs can raise.  A function of the source that can raise
  returns \<open>py_error + 'a\<close> here, with \<open>Inl\<close> for the exception.
\<close>

datatype py_error = ValueError | IndexError | KeyError | OverflowError | EOFError

text \<open>Sequencing of two computations that may raise: the first exception wins.\<close>

fun ebind :: "py_error + 'a \<Rightarrow> ('a \<Rightarrow> py_error + 'b) \<Rightarrow> py_error + 'b" where
  "ebind (Inl e) f = Inl e"
| "ebind (Inr x) f = f x"

text \<open>
  \<open>int(s)\<close> on a string of ASCII decimal digits; every other string is a \<open>ValueError\<close> here.
  (Python's \<open>int\<close> also reads a sign, surrounding white space and underscores between digits;
  no rank of a deck has any of these, and the theorems below that depend on \<open>py_int\<close> are
  about cards whose ranks are those of the decks.)
\<close>

fun py_int_digits :: "int \<Rightarrow> string \<Rightarrow> py_error + int" where
  "py_int_digits acc [] = Inr acc"
| "py_int_digits acc (c # cs) =
     (let d = (of_char c :: nat)
      in if 48 \<le> d \<and> d \<le> 57 then py_int_digits (10 * acc + int (d - 48)) cs
         else Inl ValueError)"

definition py_int :: "string \<Rightarrow> py_error + int" where
  "py_int s = (if s = [] then Inl ValueError else py_int_digits 0 s)"

section \<open>baccarat.py\<close>

subsection \<open>Cards, totals and the shoe\<close>

text \<open>The ranks \<open>create_shoe\<close> builds the shoe from; a card of this game is its rank.\<close>

definition ranks :: "string list" where
  "ranks = [''A'', ''2'', ''3'', ''4'', ''5'', ''6''] @ [''7'', ''8'', ''9'', ''10'', ''J'', ''Q'', ''K'']"

definition card_value :: "string \<Rightarrow> py_error + int" where
  "card_value rank =
     (if rank = ''A'' then Inr 1
      else if rank \<in> set [''10'', ''J'', ''Q'', ''K''] then Inr 0
      else py_int rank)"

text \<open>\<open>sum(card_value(c) for c in hand)\<close>: the running sum, left to right, from 0.\<close>

fun sum_card_values :: "int \<Rightarrow> string list \<Rightarrow> py_error + int" where
  "sum_card_values acc [] = Inr acc"
| "sum_card_values acc (c # cs) =
     ebind (card_value c) (\<lambda>v. sum_card_values (acc + v) cs)"

definition hand_total :: "string list \<Rightarrow> py_error + int" where
  "hand_total hand = ebind (sum_card_values 0 hand) (\<lambda>t. Inr (t mod 10))"

text \<open>\<open>draw\<close> pops the front of the shoe; the shoe after the call is returned with the card.\<close>

definition draw :: "string list \<Rightarrow> py_error + (string \<times> string list)" where
  "draw shoe = (case shoe of [] \<Rightarrow> Inl ValueError | c # rest \<Rightarrow> Inr (c, rest))"

subsection \<open>Draw policy\<close>

definition player_draws :: "int \<Rightarrow> bool" where
  "player_draws player_total = (player_total \<le> 5)"

definition banker_draws :: "int \<Rightarrow> string option \<Rightarrow> py_error + bool" where
  "banker_draws bank_total player_third_card =
     (case player_third_card of
        None \<Rightarrow> Inr (bank_total \<le> 5)
      | Some third \<Rightarrow>
          ebind (card_value third) (\<lambda>p3.
            if bank_total \<le> 2 then Inr True
            else if bank_total = 3 then Inr (p3 \<noteq> 8)
            else if bank_total = 4 then Inr (2 \<le> p3 \<and> p3 \<le> 7)
            else if bank_total = 5 then Inr (4 \<le> p3 \<and> p3 \<le> 7)
            else if bank_total = 6 then Inr (p3 \<in> {6, 7})
            else Inr False))"

subsection \<open>The round\<close>

text \<open>The dictionary \<open>play_round\<close> returns, one field for each key.\<close>

record round_result =
  player_hand :: "string list"
  banker_hand :: "string list"
  player_total :: int
  banker_total :: int
  winner :: string
  player_third :: "string option"
  banker_third :: "string option"

text \<open>
  \<open>play_round\<close> mutates the shoe it is given; the model returns the shoe left after the
  round next to the dictionary.  An exception of \<open>draw\<close> or of \<open>hand_total\<close> ends the round.
\<close>

definition play_round_baccarat :: "string list \<Rightarrow> py_error + (round_result \<times> string list)" where
  "play_round_baccarat shoe =
     ebind (draw shoe) (\<lambda>(c1, shoe1).
     ebind (draw shoe1) (\<lambda>(c2, shoe2).
     ebind (draw shoe2) (\<lambda>(c3, shoe3).
     ebind (draw shoe3) (\<lambda>(c4, shoe4).
     let player = [c1, c2]; banker = [c3, c4] in
     ebind (hand_total player) (\<lambda>p_total.
     ebind (hand_total banker) (\<lambda>b_total.
     ebind
       (if p_total \<in> {8, 9} \<or> b_total \<in> {8, 9}
        then Inr (player, banker, None, None, shoe4)
        else
          ebind
            (if player_draws p_total
             then ebind (draw shoe4) (\<lambda>(c5, shoe5). Inr (player @ [c5], Some c5, shoe5))
             else Inr (player, None, shoe4))
            (\<lambda>(player', p_third, shoe5).
          ebind (hand_total player') (\<lambda>p_total'.
          ebind (banker_draws b_total p_third) (\<lambda>b_draws.
            if b_draws
            then ebind (draw shoe5) (\<lambda>(c6, shoe6).
                   Inr (player', banker @ [c6], p_third, Some c6, shoe6))
            else Inr (player', banker, p_third, None, shoe5)))))
       (\<lambda>(player', banker', p_third, b_third, shoe').
     ebind (hand_total player') (\<lambda>p_final.
     ebind (hand_total banker') (\<lambda>b_final.
       Inr (\<lparr>player_hand = player', banker_hand = banker',
              player_total = p_final, banker_total = b_final,
              winner = (if p_final > b_final then ''player''
                        else if b_final > p_final then ''banker'' else ''tie''),
              player_third = p_third, banker_third = b_third\<rparr>, shoe'))))))))))"

subsection \<open>Double-precision arithmetic of the commission\<close>

text \<open>
  \<open>bet_amount * 0.95\<close> converts the integer to a double, multiplies it by the double nearest
  to 0.95 and rounds the product to a double; \<open>round\<close> then rounds that double to an integer.
  A finite double is written here as a pair \<open>(m, e)\<close> standing for \<open>m * 2 ^ e\<close>, and every
  rounding is the round-to-nearest, ties-to-even of IEEE 754 binary64, computed on integers.
\<close>

text \<open>\<open>n / d\<close> for \<open>0 < d\<close>, rounded to the nearest integer, a tie to the even neighbour.\<close>

definition round_half_even :: "int \<Rightarrow> int \<Rightarrow> int" where
  "round_half_even n d =
     (let q = n div d; r = n mod d
      in if 2 * r < d then q else if d < 2 * r then q + 1
         else if even q then q else q + 1)"

text \<open>
  The integer \<open>n\<close> rounded to 53 significant bits: the result \<open>(q, s)\<close> stands for
  \<open>q * 2 ^ s\<close>, where \<open>2 ^ s\<close> is the spacing of the doubles at the magnitude of \<open>n\<close>.
\<close>

definition round53 :: "int \<Rightarrow> int \<times> nat" where
  "round53 n = (let s = nat (bitlen \<bar>n\<bar> - 53) in (round_half_even n (2 ^ s), s))"

text \<open>
  The conversion of an \<open>int\<close> operand to a double: correctly rounded, and
  \<open>OverflowError\<close> ("int too large to convert to float") when the rounded value is no
  longer a finite double.
\<close>

definition py_float_of_int :: "int \<Rightarrow> py_error + (int \<times> int)" where
  "py_float_of_int a =
     (let (q, s) = round53 a
      in if 2 ^ 1024 \<le> \<bar>q\<bar> * 2 ^ s then Inl OverflowError else Inr (q, int s))"

text \<open>The double nearest to 0.95, \<open>0x1.e666666666666p-1\<close>.\<close>

definition double_095 :: "int \<times> int" where
  "double_095 = (8556839292003942, - 53)"

text \<open>
  The product of two doubles, correctly rounded.  The exponent range is not checked: the
  one product the program forms is \<open>x * 0.95\<close> for an integer \<open>x\<close>, which is smaller in
  magnitude than \<open>x\<close> and, for \<open>x \<noteq> 0\<close>, at least 0.95.
\<close>

definition float_mul :: "int \<times> int \<Rightarrow> int \<times> int \<Rightarrow> int \<times> int" where
  "float_mul x y =
     (let (q, s) = round53 (fst x * fst y) in (q, snd x + snd y + int s))"

text \<open>\<open>round(x)\<close> on a double: the nearest integer, a tie to the even one.\<close>

definition py_round :: "int \<times> int \<Rightarrow> int" where
  "py_round x =
     (if 0 \<le> snd x then fst x * 2 ^ nat (snd x)
      else round_half_even (fst x) (2 ^ nat (- snd x)))"

subsection \<open>Settlement\<close>

text \<open>
  \<open>bet_amount\<close> is the \<open>int\<close> that \<open>prompt_bet\<close> parsed.  Where no inner branch of
  \<open>winner == 'player'\<close> or \<open>winner == 'banker'\<close> returns, control reaches the last line.
  (The parameter \<open>winner\<close> is called \<open>winning\<close>: \<open>winner\<close> is a field of the round's result.)
\<close>

definition settle_bet_baccarat :: "string \<Rightarrow> int \<Rightarrow> string \<Rightarrow> py_error + int" where
  "settle_bet_baccarat bet_type bet_amount winning =
     (if winning = ''tie'' then
        (if bet_type = ''tie'' then Inr (bet_amount * 8) else Inr 0)
      else if winning = ''player'' \<and> bet_type = ''player'' then Inr bet_amount
      else if winning = ''player'' \<and> bet_type = ''banker'' then Inr (- bet_amount)
      else if winning = ''banker'' \<and> bet_type = ''banker'' then
        ebind (py_float_of_int bet_amount) (\<lambda>x. Inr (py_round (float_mul x double_095)))
      else if winning = ''banker'' \<and> bet_type = ''player'' then Inr (- bet_amount)
      else Inr (- bet_amount))"

section \<open>blackjack.py\<close>

subsection \<open>Cards and the value of a hand\<close>

definition SUITS :: "string list" where
  "SUITS = [''Hearts'', ''Diamonds'', ''Clubs'', ''Spades'']"

definition RANKS :: "string list" where
  "RANKS = [''2'', ''3'', ''4'', ''5'', ''6''] @ [''7'', ''8'', ''9'', ''10'', ''J'', ''Q'', ''K'', ''A'']"

text \<open>A card is the tuple \<open>(rank, suit)\<close>.\<close>

type_synonym card = "string \<times> string"

text \<open>The \<open>for\<close> loop of \<open>hand_value\<close>, on the pair \<open>(value, aces)\<close>.\<close>

fun hand_value_sum :: "int \<Rightarrow> nat \<Rightarrow> card list \<Rightarrow> py_error + (int \<times> nat)" where
  "hand_value_sum val aces [] = Inr (val, aces)"
| "hand_value_sum val aces ((r, suit) # hand) =
     (if r \<in> set [''J'', ''Q'', ''K''] then hand_value_sum (val + 10) aces hand
      else if r = ''A'' then hand_value_sum (val + 11) (aces + 1) hand
      else (case py_int r of
              Inl e \<Rightarrow> Inl e
            | Inr n \<Rightarrow> hand_value_sum (val + n) aces hand))"

text \<open>The \<open>while\<close> loop of \<open>hand_value\<close>: aces go from 11 to 1 as needed.\<close>

function hand_value_downgrade :: "int \<Rightarrow> nat \<Rightarrow> int \<times> nat" where
  "hand_value_downgrade val aces =
     (if val > 21 \<and> aces \<noteq> 0 then hand_value_downgrade (val - 10) (aces - 1)
      else (val, aces))"
  by pat_completeness auto
termination
  by (relation "measure (\<lambda>(val, aces). aces)") auto

declare hand_value_downgrade.simps [simp del]

definition has_ace :: "card list \<Rightarrow> bool" where
  "has_ace hand = list_ex (\<lambda>(r, suit). r = ''A'') hand"

text \<open>
  \<open>hand_value\<close> returns \<open>(value, is_soft)\<close>; \<open>has_ace\<close> is the source's
  \<open>any(r == 'A' for r, _ in hand)\<close>, which the last assignment evaluates twice.
\<close>

definition hand_value :: "card list \<Rightarrow> py_error + (int \<times> bool)" where
  "hand_value hand =
     ebind (hand_value_sum 0 0 hand) (\<lambda>(val0, aces0).
       let (val, aces) = hand_value_downgrade val0 aces0;
           is_soft = (has_ace hand \<and> val \<le> 21 \<and> has_ace hand \<and> val - 10 \<ge> 11)
       in Inr (val, is_soft))"

definition is_blackjack :: "card list \<Rightarrow> py_error + bool" where
  "is_blackjack hand = ebind (hand_value hand) (\<lambda>(v, soft). Inr (v = 21 \<and> length hand = 2))"

subsection \<open>Amounts of money\<close>

text \<open>
  The balance, the bet and the net result of a round are Python floats (\<open>take_bet\<close> returns
  \<open>round(float(bet), 2)\<close>, the balance starts at \<open>100.0\<close>).  A float is a binary64
  double, written as for the commission above: the pair \<open>(m, e)\<close> stands for
  \<open>m * 2 ^ e\<close>, and every operation rounds its exact result to 53 significant bits, to
  nearest, ties to even.  The exponent range is not part of the model: it agrees with
  binary64 as long as no operand or result leaves the range of the normal doubles, which
  \<open>double_ok\<close> below guarantees with room to spare for the operations of a round.
\<close>

type_synonym double = "int \<times> int"

text \<open>The number a double stands for.\<close>

definition double_value :: "double \<Rightarrow> real" where
  "double_value x =
     (if 0 \<le> snd x then of_int (fst x) * 2 ^ nat (snd x)
      else of_int (fst x) / 2 ^ nat (- snd x))"

text \<open>Zero, or a double of magnitude from \<open>2 ^ - 1022\<close> up to below \<open>2 ^ 1013\<close>.\<close>

definition double_ok :: "double \<Rightarrow> bool" where
  "double_ok x = (\<bar>fst x\<bar> < 2 ^ 53 \<and> (fst x = 0 \<or> (- 1022 \<le> snd x \<and> snd x \<le> 960)))"

text \<open>The constants of the program: \<open>0\<close>, \<open>1.5\<close> and \<open>2\<close>.\<close>

definition double_0 :: double where
  "double_0 = (0, 0)"

definition double_15 :: double where
  "double_15 = (3, - 1)"

definition double_2 :: double where
  "double_2 = (2, 0)"

text \<open>\<open>- x\<close> is exact.\<close>

definition float_neg :: "double \<Rightarrow> double" where
  "float_neg x = (- fst x, snd x)"

text \<open>\<open>x + y\<close>: the exact sum at the smaller of the two exponents, rounded.\<close>

definition float_add :: "double \<Rightarrow> double \<Rightarrow> double" where
  "float_add x y =
     (let e = min (snd x) (snd y);
          (q, s) = round53 (fst x * 2 ^ nat (snd x - e) + fst y * 2 ^ nat (snd y - e))
      in (q, e + int s))"

text \<open>\<open>x < y\<close>, compared at the smaller of the two exponents.\<close>

definition float_less :: "double \<Rightarrow> double \<Rightarrow> bool" where
  "float_less x y =
     (let e = min (snd x) (snd y)
      in fst x * 2 ^ nat (snd x - e) < fst y * 2 ^ nat (snd y - e))"

subsection \<open>Printing\<close>

text \<open>
  The printing functions write to the terminal and return nothing; what the model keeps of
  them is whether they raise: \<open>card_str\<close> looks the suit up in a dictionary of the four
  suits, and \<open>display_hands\<close> and \<open>print_round_result\<close> evaluate the hands they print.
\<close>

definition card_str :: "card \<Rightarrow> py_error + unit" where
  "card_str c = (case c of (rank, suit) \<Rightarrow> if suit \<in> set SUITS then Inr () else Inl KeyError)"

fun card_strs :: "card list \<Rightarrow> py_error + unit" where
  "card_strs [] = Inr ()"
| "card_strs (c # cs) = ebind (card_str c) (\<lambda>u. card_strs cs)"

definition display_hands :: "card list \<Rightarrow> card list \<Rightarrow> bool \<Rightarrow> py_error + unit" where
  "display_hands p_hand d_hand hide_dealer_card =
     ebind (card_strs p_hand) (\<lambda>u.
     ebind (if hide_dealer_card
            then (case d_hand of [] \<Rightarrow> Inl IndexError | c # cs \<Rightarrow> card_str c)
            else card_strs d_hand) (\<lambda>u.
     ebind (hand_value p_hand) (\<lambda>v. Inr ())))"

definition print_round_result ::
  "card list \<Rightarrow> card list \<Rightarrow> double \<Rightarrow> double \<Rightarrow> py_error + unit" where
  "print_round_result p_hand d_hand bet net =
     ebind (hand_value p_hand) (\<lambda>pv.
     ebind (hand_value d_hand) (\<lambda>dv.
     ebind (card_strs d_hand) (\<lambda>u.
     ebind (card_strs p_hand) (\<lambda>u. Inr ()))))"

subsection \<open>The shoe and the two turns\<close>

text \<open>\<open>deck.pop()\<close>: the last card of the list, and \<open>IndexError\<close> on the empty list.\<close>

definition deck_pop :: "card list \<Rightarrow> py_error + (card \<times> card list)" where
  "deck_pop deck = (if deck = [] then Inl IndexError else Inr (last deck, butlast deck))"

text \<open>
  The player's choices come from \<open>input\<close>.  The model reads them from a list, each entry
  being one line after \<open>.strip().lower()\<close>; reading past the end of the input is Python's
  \<open>EOFError\<close>.  \<open>player_turn\<close> returns the action and the hand; the model returns the deck
  and the unread input as well, since the call consumes both.
\<close>

function player_turn ::
  "card list \<Rightarrow> card list \<Rightarrow> card \<Rightarrow> bool \<Rightarrow> string list
   \<Rightarrow> py_error + (string \<times> card list \<times> card list \<times> string list)" where
  "player_turn deck hand dealer_upcard can_double inputs =
     (case hand_value hand of
        Inl e \<Rightarrow> Inl e
      | Inr (val, soft) \<Rightarrow>
          if val > 21 then Inr (''bust'', hand, deck, inputs)
          else (case inputs of
                  [] \<Rightarrow> Inl EOFError
                | choice # rest \<Rightarrow>
                    if choice \<in> set [''h'', ''hit''] then
                      (case deck_pop deck of
                         Inl e \<Rightarrow> Inl e
                       | Inr (c, deck') \<Rightarrow>
                           (case display_hands (hand @ [c]) [dealer_upcard] True of
                              Inl e \<Rightarrow> Inl e
                            | Inr u \<Rightarrow> player_turn deck' (hand @ [c]) dealer_upcard can_double rest))
                    else if choice \<in> set [''s'', ''stand''] then Inr (''stand'', hand, deck, rest)
                    else if choice \<in> set [''d'', ''double'', ''double down'']
                            \<and> can_double \<and> length hand = 2
                    then Inr (''double'', hand, deck, rest)
                    else player_turn deck hand dealer_upcard can_double rest))"
  by pat_completeness auto
termination
  by (relation "measure (\<lambda>(deck, hand, dealer_upcard, can_double, inputs). length inputs)") auto

declare player_turn.simps [simp del]

text \<open>\<open>dealer_turn\<close> returns the hand; the model returns the deck left as well.\<close>

function dealer_turn :: "card list \<Rightarrow> card list \<Rightarrow> py_error + (card list \<times> card list)" where
  "dealer_turn deck hand =
     (case hand_value hand of
        Inl e \<Rightarrow> Inl e
      | Inr (val, is_soft) \<Rightarrow>
          if val < 17 then
            (case deck_pop deck of
               Inl e \<Rightarrow> Inl e
             | Inr (c, deck') \<Rightarrow> dealer_turn deck' (hand @ [c]))
          else Inr (hand, deck))"
  by pat_completeness auto
termination
  by (relation "measure (\<lambda>(deck, hand). length deck)")
     (auto simp: deck_pop_def split: if_splits)

declare dealer_turn.simps [simp del]

subsection \<open>Settlement and the round\<close>

text \<open>
  \<open>bet\<close> is a float, and so is what \<open>settle_bet\<close> returns, but for the \<open>int\<close> 0 of a
  push, which is \<open>double_0\<close> here: adding either to the balance leaves it as it is.

  Both hands are evaluated first, so the four calls of \<open>is_blackjack\<close> cannot raise and
  the order in which \<open>and\<close> evaluates them is immaterial.
\<close>

definition settle_bet_blackjack ::
  "card list \<Rightarrow> card list \<Rightarrow> double \<Rightarrow> py_error + double" where
  "settle_bet_blackjack p_hand d_hand bet =
     ebind (hand_value p_hand) (\<lambda>(pv, ps).
     ebind (hand_value d_hand) (\<lambda>(dv, ds).
     ebind (is_blackjack p_hand) (\<lambda>p_bj.
     ebind (is_blackjack d_hand) (\<lambda>d_bj.
       if p_bj \<and> \<not> d_bj then Inr (float_mul bet double_15)
       else if p_bj \<and> d_bj then Inr double_0
       else if pv > 21 then Inr (float_neg bet)
       else if dv > 21 then Inr bet
       else if pv > dv then Inr bet
       else if pv < dv then Inr (float_neg bet)
       else Inr double_0))))"

text \<open>What \<open>print_round_result\<close> is given at the end of a round.\<close>

record round_report =
  report_player_hand :: "card list"
  report_dealer_hand :: "card list"
  report_bet :: double
  report_net :: double

text \<open>
  \<open>play_round\<close> returns \<open>(cont, balance, played)\<close>, where \<open>cont\<close> is \<open>None\<close> or \<open>True\<close>.
  The model adds what the call leaves behind: the deck, the unread input, and the report it
  printed (none when the player quits).
\<close>

record round_outcome =
  cont :: "bool option"
  balance_after :: double
  played :: bool
  deck_after :: "card list"
  inputs_after :: "string list"
  report :: "round_report option"

text \<open>The three lines that end a round: \<open>balance += net\<close>, the report, the return.\<close>

definition finish_round ::
  "card list \<Rightarrow> card list \<Rightarrow> double \<Rightarrow> double \<Rightarrow> double \<Rightarrow> card list \<Rightarrow> string list
   \<Rightarrow> py_error + round_outcome" where
  "finish_round p_hand d_hand bet net balance deck inputs =
     ebind (print_round_result p_hand d_hand bet net) (\<lambda>u.
       Inr \<lparr>cont = Some True, balance_after = float_add balance net, played = True,
            deck_after = deck, inputs_after = inputs,
            report = Some \<lparr>report_player_hand = p_hand, report_dealer_hand = d_hand,
                           report_bet = bet, report_net = net\<rparr>\<rparr>)"

text \<open>The last lines of \<open>play_round\<close>, from the dealer's turn on.\<close>

definition dealer_stage ::
  "card list \<Rightarrow> card list \<Rightarrow> double \<Rightarrow> double \<Rightarrow> card list \<Rightarrow> string list
   \<Rightarrow> py_error + round_outcome" where
  "dealer_stage p_hand d_hand bet balance deck inputs =
     ebind (dealer_turn deck d_hand) (\<lambda>(d_hand', deck').
     ebind (display_hands p_hand d_hand' False) (\<lambda>u.
     ebind (settle_bet_blackjack p_hand d_hand' bet) (\<lambda>net.
       finish_round p_hand d_hand' bet net balance deck' inputs)))"

text \<open>
  \<open>play_round\<close>.  Two values come from outside the rule engine and are parameters here:
  \<open>fresh\<close>, the shuffled shoe \<open>create_deck()\<close> would return, and \<open>taken_bet\<close>, the
  value of \<open>take_bet(balance)\<close> (\<open>None\<close> when the player quits).
\<close>

definition play_round_blackjack ::
  "card list \<Rightarrow> double \<Rightarrow> double option \<Rightarrow> string list \<Rightarrow> card list
   \<Rightarrow> py_error + round_outcome" where
  "play_round_blackjack deck0 balance taken_bet inputs fresh =
     (let deck = (if length deck0 < 15 then fresh else deck0) in
      case taken_bet of
        None \<Rightarrow> Inr \<lparr>cont = None, balance_after = balance, played = False,
                     deck_after = deck, inputs_after = inputs, report = None\<rparr>
      | Some bet \<Rightarrow>
          ebind (deck_pop deck) (\<lambda>(p1, deck1).
          ebind (deck_pop deck1) (\<lambda>(p2, deck2).
          ebind (deck_pop deck2) (\<lambda>(d1, deck3).
          ebind (deck_pop deck3) (\<lambda>(d2, deck4).
          let p_hand = [p1, p2]; d_hand = [d1, d2] in
          ebind (display_hands p_hand d_hand True) (\<lambda>u.
          ebind (is_blackjack p_hand) (\<lambda>p_bj.
          ebind (if p_bj then Inr True else is_blackjack d_hand) (\<lambda>naturals.
            if naturals then
              ebind (display_hands p_hand d_hand False) (\<lambda>u.
              ebind (settle_bet_blackjack p_hand d_hand bet) (\<lambda>net.
                finish_round p_hand d_hand bet net balance deck4 inputs))
            else
              ebind (player_turn deck4 p_hand d1 True inputs) (\<lambda>(action, p_hand', deck5, inputs').
                if action = ''bust'' then
                  finish_round p_hand' d_hand bet (float_neg bet) balance deck5 inputs'
                else if action = ''double'' then
                  ebind
                    (if float_less balance (float_mul bet double_2) then
                       ebind (deck_pop deck5) (\<lambda>(c, deck6).
                         Inr (p_hand' @ [c], bet, balance, deck6))
                     else
                       ebind (deck_pop deck5) (\<lambda>(c, deck6).
                       ebind (display_hands (p_hand' @ [c]) d_hand True) (\<lambda>u.
                         Inr (p_hand' @ [c], float_mul bet double_2,
                              float_add balance (float_neg bet), deck6))))
                    (\<lambda>(p_hand'', bet', balance', deck6).
                  ebind (hand_value p_hand'') (\<lambda>(pv, ps).
                    if pv > 21 then
                      finish_round p_hand'' d_hand bet' (float_neg bet') balance' deck6 inputs'
                    else dealer_stage p_hand'' d_hand bet' balance' deck6 inputs'))
                else dealer_stage p_hand' d_hand bet balance deck5 inputs')))))))))"

section \<open>Definitions that follow the specification\<close>

text \<open>
  The rank values of the modulo-10 game as the specification words them: A = 1, 2 to 9 at
  face value, 10/J/Q/K = 0.  This definition follows the specification, \<open>card_value\<close>
  follows the code.
\<close>

definition spec_card_value :: "string \<Rightarrow> int" where
  "spec_card_value rank =
     (if rank = ''A'' then 1 else if rank = ''2'' then 2 else if rank = ''3'' then 3
      else if rank = ''4'' then 4 else if rank = ''5'' then 5 else if rank = ''6'' then 6
      else if rank = ''7'' then 7 else if rank = ''8'' then 8 else if rank = ''9'' then 9
      else 0)"

text \<open>
  The rank values of the 21-style game as the specification words them: 2 to 10 at face
  value, J/Q/K = 10, A = 11 initially.
\<close>

definition spec_rank_value :: "string \<Rightarrow> int" where
  "spec_rank_value r =
     (if r = ''A'' then 11 else if r = ''2'' then 2 else if r = ''3'' then 3
      else if r = ''4'' then 4 else if r = ''5'' then 5 else if r = ''6'' then 6
      else if r = ''7'' then 7 else if r = ''8'' then 8 else if r = ''9'' then 9
      else 10)"

section \<open>Properties of the double-precision arithmetic\<close>

lemma round_half_even_error:
  assumes "0 < d"
  shows "2 * \<bar>round_half_even n d * d - n\<bar> \<le> d"
proof -
  have n: "n = (n div d) * d + n mod d" by simp
  have m: "0 \<le> n mod d" "n mod d < d" using assms by simp_all
  define q where "q = n div d"
  define r where "r = n mod d"
  have n': "n = q * d + r" and r: "0 \<le> r" "r < d"
    using n m by (simp_all add: q_def r_def)
  have "round_half_even n d = (if 2 * r < d then q else if d < 2 * r then q + 1
         else if even q then q else q + 1)"
    by (simp add: round_half_even_def Let_def q_def r_def)
  then show ?thesis
    using r by (auto simp: n' algebra_simps)
qed

lemma round53_exact:
  assumes "\<bar>n\<bar> < 2 ^ 53"
  shows "round53 n = (n, 0)"
proof -
  have "bitlen \<bar>n\<bar> \<le> 53"
    using assms by (simp add: bitlen_le_iff_power)
  then have "nat (bitlen \<bar>n\<bar> - 53) = 0"
    by simp
  then show ?thesis
    by (simp add: round53_def round_half_even_def)
qed

section \<open>Properties of baccarat.py\<close>

lemma card_value_ranks:
  "rank \<in> set ranks \<Longrightarrow> card_value rank = Inr (spec_card_value rank)"
  by (auto simp: ranks_def card_value_def spec_card_value_def py_int_def)

lemma spec_card_value_range: "0 \<le> spec_card_value rank \<and> spec_card_value rank \<le> 9"
  by (simp add: spec_card_value_def)

lemma sum_card_values_ranks:
  "set hand \<subseteq> set ranks \<Longrightarrow>
   sum_card_values acc hand = Inr (acc + sum_list (map spec_card_value hand))"
  by (induction hand arbitrary: acc) (simp_all add: card_value_ranks)

lemma hand_total_ranks:
  "set hand \<subseteq> set ranks \<Longrightarrow>
   hand_total hand = Inr (sum_list (map spec_card_value hand) mod 10)"
  by (simp add: hand_total_def sum_card_values_ranks)

subsection \<open>The modulo-10 score\<close>

text \<open>
  Claim C7.  For every hand of cards of the shoe, \<open>hand_total\<close> returns the sum of the
  rank values (A = 1, 2 to 9 at face value, 10/J/Q/K = 0) modulo 10; the score lies
  between 0 and 9, and a hand with the same cards in another order has the same score.
\<close>

theorem hand_total_mod10:
  assumes "set hand \<subseteq> set ranks"
  shows "hand_total hand = Inr (sum_list (map spec_card_value hand) mod 10)
       \<and> (\<exists>t. hand_total hand = Inr t \<and> 0 \<le> t \<and> t \<le> 9)
       \<and> (\<forall>hand'. mset hand' = mset hand \<longrightarrow> hand_total hand' = hand_total hand)"
proof (intro conjI allI impI)
  show total: "hand_total hand = Inr (sum_list (map spec_card_value hand) mod 10)"
    using assms by (rule hand_total_ranks)
  show "\<exists>t. hand_total hand = Inr t \<and> 0 \<le> t \<and> t \<le> 9"
    unfolding total by simp
next
  fix hand' :: "string list"
  assume perm: "mset hand' = mset hand"
  then have "set hand' = set hand"
    by (rule mset_eq_setD)
  with assms have valid': "set hand' \<subseteq> set ranks"
    by simp
  have "mset (map spec_card_value hand') = mset (map spec_card_value hand)"
    using perm by simp
  then have "sum_list (map spec_card_value hand') = sum_list (map spec_card_value hand)"
    by (metis sum_mset_sum_list)
  then show "hand_total hand' = hand_total hand"
    using hand_total_ranks [OF assms] hand_total_ranks [OF valid'] by simp
qed

theorem hand_total_mod10_witness:
  "set [''9'', ''6'', ''2''] \<subseteq> set ranks
   \<and> hand_total [''9'', ''6'', ''2''] = Inr 7
   \<and> hand_total [''2'', ''9'', ''6''] = hand_total [''9'', ''6'', ''2'']"
proof -
  have valid: "set [''9'', ''6'', ''2''] \<subseteq> set ranks"
    by (simp add: ranks_def)
  have perm: "mset [''2'', ''9'', ''6''] = mset [''9'', ''6'', ''2'']"
    by (simp add: add.commute)
  from hand_total_mod10 [OF valid] perm valid show ?thesis
    by (simp add: spec_card_value_def)
qed

subsection \<open>The banker's third card\<close>

text \<open>
  Claim C2.  When the player did not draw, the banker draws exactly when its total is at
  most 5.  When the player drew a third card of value \<open>p3\<close>, the banker draws exactly when
  its total is at most 2, or is 3 and \<open>p3\<close> is not 8, or is 4 and \<open>p3\<close> is 2 to 7, or is 5
  and \<open>p3\<close> is 4 to 7, or is 6 and \<open>p3\<close> is 6 or 7; at 7 it never draws.  The decision
  depends on the third card through its value only.
\<close>

theorem banker_draws_table:
  "banker_draws bt None = Inr (bt \<le> 5)
   \<and> (card_value c = Inr p3 \<longrightarrow>
        banker_draws bt (Some c) =
          Inr (bt \<le> 2 \<or> (bt = 3 \<and> p3 \<noteq> 8) \<or> (bt = 4 \<and> 2 \<le> p3 \<and> p3 \<le> 7)
               \<or> (bt = 5 \<and> 4 \<le> p3 \<and> p3 \<le> 7) \<or> (bt = 6 \<and> (p3 = 6 \<or> p3 = 7)))
        \<and> banker_draws 7 (Some c) = Inr False)
   \<and> (card_value c = card_value c' \<longrightarrow> banker_draws bt (Some c) = banker_draws bt (Some c'))"
  by (auto simp: banker_draws_def)

theorem banker_draws_table_witness:
  "card_value ''7'' = Inr 7 \<and> card_value ''10'' = card_value ''K''
   \<and> banker_draws 6 None = Inr False
   \<and> banker_draws 6 (Some ''7'') = Inr True
   \<and> banker_draws 7 (Some ''7'') = Inr False
   \<and> banker_draws 4 (Some ''10'') = banker_draws 4 (Some ''K'')"
proof -
  have v7: "card_value ''7'' = Inr 7"
    by (simp add: card_value_def py_int_def)
  have v10: "card_value ''10'' = card_value ''K''"
    by (simp add: card_value_def)
  from banker_draws_table [of 6 "''7''" 7 "''7''"] v7
  have at6: "banker_draws 6 None = Inr False \<and> banker_draws 6 (Some ''7'') = Inr True
             \<and> banker_draws 7 (Some ''7'') = Inr False"
    by simp
  from banker_draws_table [of 4 "''10''" 0 "''K''"] v10
  have at4: "banker_draws 4 (Some ''10'') = banker_draws 4 (Some ''K'')"
    by blast
  from v7 v10 at6 at4 show ?thesis
    by blast
qed

subsection \<open>Bets that are not on the winning side\<close>

text \<open>
  Claim C10.  For every bet-type string, \<open>settle_bet\<close> returns a number and raises nothing
  in these cases: when the winner is \<open>player\<close> or \<open>banker\<close>, every bet type other than
  the winner itself (\<open>tie\<close> and strings outside the three bet types included) returns
  \<open>- bet_amount\<close>; when the winner is \<open>tie\<close>, every bet type other than \<open>tie\<close>
  returns 0.
\<close>

theorem settle_bet_baccarat_default:
  "(winning \<in> {''player'', ''banker''} \<and> bet_type \<noteq> winning
      \<longrightarrow> settle_bet_baccarat bet_type bet_amount winning = Inr (- bet_amount))
   \<and> (bet_type \<noteq> ''tie'' \<longrightarrow> settle_bet_baccarat bet_type bet_amount ''tie'' = Inr 0)"
  by (auto simp: settle_bet_baccarat_def)

theorem settle_bet_baccarat_default_witness:
  "''banker'' \<in> {''player'', ''banker''} \<and> ''horse'' \<noteq> ''banker'' \<and> ''horse'' \<noteq> ''tie''
   \<and> settle_bet_baccarat ''horse'' 25 ''banker'' = Inr (- 25)
   \<and> settle_bet_baccarat ''horse'' 25 ''tie'' = Inr 0"
  using settle_bet_baccarat_default [of "''banker''" "''horse''" 25]
  by simp

subsection \<open>Drawing from an empty shoe\<close>



subsection \<open>The round of the modulo-10 game\<close>

lemma play_round_natural:
  assumes "hand_total [c1, c2] = Inr p0" and "hand_total [c3, c4] = Inr b0"
    and "p0 \<in> {8, 9} \<or> b0 \<in> {8, 9}"
  shows "play_round_baccarat (c1 # c2 # c3 # c4 # rest) =
         Inr (\<lparr>player_hand = [c1, c2], banker_hand = [c3, c4],
                player_total = p0, banker_total = b0,
                winner = (if p0 > b0 then ''player'' else if b0 > p0 then ''banker'' else ''tie''),
                player_third = None, banker_third = None\<rparr>, rest)"
  using assms by (simp add: play_round_baccarat_def draw_def)

lemma play_round_third_cards:
  assumes "hand_total [c1, c2] = Inr p0" and "hand_total [c3, c4] = Inr b0"
    and "\<not> (p0 \<in> {8, 9} \<or> b0 \<in> {8, 9})"
    and "hand_total (if p0 \<le> 5 then [c1, c2, c5] else [c1, c2]) = Inr p1"
    and "banker_draws b0 (if p0 \<le> 5 then Some c5 else None) = Inr bd"
    and "hand_total (if bd then [c3, c4, c6] else [c3, c4]) = Inr b1"
    and "rest = (if p0 \<le> 5 then c5 # rest5 else rest5)"
    and "rest5 = (if bd then c6 # rest6 else rest6)"
  shows "play_round_baccarat (c1 # c2 # c3 # c4 # rest) =
         Inr (\<lparr>player_hand = (if p0 \<le> 5 then [c1, c2, c5] else [c1, c2]),
                banker_hand = (if bd then [c3, c4, c6] else [c3, c4]),
                player_total = p1, banker_total = b1,
                winner = (if p1 > b1 then ''player'' else if b1 > p1 then ''banker'' else ''tie''),
                player_third = (if p0 \<le> 5 then Some c5 else None),
                banker_third = (if bd then Some c6 else None)\<rparr>, rest6)"
proof (cases "p0 \<le> 5")
  case True
  with assms show ?thesis
    by (cases bd) (simp_all add: play_round_baccarat_def draw_def player_draws_def)
next
  case False
  with assms show ?thesis
    by (cases bd) (simp_all add: play_round_baccarat_def draw_def player_draws_def)
qed

lemma banker_draws_ranks:
  assumes "third = None \<or> (\<exists>c. third = Some c \<and> c \<in> set ranks)"
  shows "\<exists>bd. banker_draws bt third = Inr bd"
  using assms by (auto simp: banker_draws_def card_value_ranks)

text \<open>
  Claim C6.  On a shoe of at least six cards of the deck the round returns, and: when
  either initial total is 8 or 9, neither side draws and the round ends at these totals,
  with the shoe as it is after the four cards; otherwise the player draws a third card
  exactly when its total is at most 5, then the banker draws exactly when \<open>banker_draws\<close>
  says so for its initial total and the player's third card, each drawn card being the
  next one of the shoe and the shoe returned being what is left.  The totals of the result
  are those of the final hands, and the winner is the side with the higher total, \<open>tie\<close>
  when they are equal.  The statement fixes every field of the result and the shoe.
\<close>

theorem play_round_baccarat_rules:
  assumes "set (c1 # c2 # c3 # c4 # c5 # c6 # rest6) \<subseteq> set ranks"
  shows "\<exists>r shoe' p0 b0 bd.
           play_round_baccarat (c1 # c2 # c3 # c4 # c5 # c6 # rest6) = Inr (r, shoe')
         \<and> hand_total [c1, c2] = Inr p0 \<and> hand_total [c3, c4] = Inr b0
         \<and> (p0 \<in> {8, 9} \<or> b0 \<in> {8, 9} \<longrightarrow>
               player_hand r = [c1, c2] \<and> banker_hand r = [c3, c4]
               \<and> player_third r = None \<and> banker_third r = None
               \<and> player_total r = p0 \<and> banker_total r = b0
               \<and> shoe' = c5 # c6 # rest6)
         \<and> (\<not> (p0 \<in> {8, 9} \<or> b0 \<in> {8, 9}) \<longrightarrow>
               player_hand r = (if p0 \<le> 5 then [c1, c2, c5] else [c1, c2])
               \<and> player_third r = (if p0 \<le> 5 then Some c5 else None)
               \<and> banker_draws b0 (player_third r) = Inr bd
               \<and> banker_hand r = (if bd then [c3, c4, if p0 \<le> 5 then c6 else c5] else [c3, c4])
               \<and> banker_third r = (if bd then Some (if p0 \<le> 5 then c6 else c5) else None)
               \<and> shoe' = drop ((if p0 \<le> 5 then 1 else 0) + (if bd then 1 else 0))
                          (c5 # c6 # rest6))
         \<and> hand_total (player_hand r) = Inr (player_total r)
         \<and> hand_total (banker_hand r) = Inr (banker_total r)
         \<and> winner r = (if player_total r > banker_total r then ''player''
                       else if banker_total r > player_total r then ''banker'' else ''tie'')"
proof -
  let ?rest = "c5 # c6 # rest6"
  from assms have v: "c1 \<in> set ranks" "c2 \<in> set ranks" "c3 \<in> set ranks" "c4 \<in> set ranks"
      "c5 \<in> set ranks" "c6 \<in> set ranks"
    by simp_all
  have total: "\<exists>t. hand_total hand = Inr t" if "set hand \<subseteq> set ranks" for hand
    using hand_total_ranks [OF that] by blast
  have "set [c1, c2] \<subseteq> set ranks"
    using v by simp
  from total [OF this] obtain p0 where hp0: "hand_total [c1, c2] = Inr p0"
    by (rule exE)
  have "set [c3, c4] \<subseteq> set ranks"
    using v by simp
  from total [OF this] obtain b0 where hb0: "hand_total [c3, c4] = Inr b0"
    by (rule exE)
  show ?thesis
  proof (cases "p0 \<in> {8, 9} \<or> b0 \<in> {8, 9}")
    case True
    define r where "r = \<lparr>player_hand = [c1, c2], banker_hand = [c3, c4],
        player_total = p0, banker_total = b0,
        winner = (if p0 > b0 then ''player'' else if b0 > p0 then ''banker'' else ''tie''),
        player_third = None, banker_third = None\<rparr>"
    have eq: "play_round_baccarat (c1 # c2 # c3 # c4 # ?rest) = Inr (r, ?rest)"
      unfolding r_def by (rule play_round_natural [OF hp0 hb0 True])
    have fields: "player_hand r = [c1, c2]" "banker_hand r = [c3, c4]"
        "player_total r = p0" "banker_total r = b0"
        "player_third r = None" "banker_third r = None"
      by (simp_all add: r_def)
    have win: "winner r = (if player_total r > banker_total r then ''player''
                 else if banker_total r > player_total r then ''banker'' else ''tie'')"
      by (simp add: r_def)
    have hands: "hand_total (player_hand r) = Inr (player_total r)"
        "hand_total (banker_hand r) = Inr (banker_total r)"
      by (simp_all only: fields hp0 hb0)
    have natural: "p0 \<in> {8, 9} \<or> b0 \<in> {8, 9} \<longrightarrow>
               player_hand r = [c1, c2] \<and> banker_hand r = [c3, c4]
               \<and> player_third r = None \<and> banker_third r = None
               \<and> player_total r = p0 \<and> banker_total r = b0
               \<and> ?rest = c5 # c6 # rest6"
      by (simp only: fields simp_thms)
    have thirds: "\<not> (p0 \<in> {8, 9} \<or> b0 \<in> {8, 9}) \<longrightarrow>
               player_hand r = (if p0 \<le> 5 then [c1, c2, c5] else [c1, c2])
               \<and> player_third r = (if p0 \<le> 5 then Some c5 else None)
               \<and> banker_draws b0 (player_third r) = Inr False
               \<and> banker_hand r = (if False then [c3, c4, if p0 \<le> 5 then c6 else c5] else [c3, c4])
               \<and> banker_third r = (if False then Some (if p0 \<le> 5 then c6 else c5) else None)
               \<and> ?rest = drop ((if p0 \<le> 5 then 1 else 0) + (if False then 1 else 0))
                         (c5 # c6 # rest6)"
      using True by (simp only: simp_thms)
    show ?thesis
      by (rule exI [of _ r], rule exI [of _ ?rest], rule exI [of _ p0], rule exI [of _ b0],
          rule exI [of _ False])
         (intro conjI eq hp0 hb0 natural thirds hands win)
  next
    case False
    have "set (if p0 \<le> 5 then [c1, c2, c5] else [c1, c2]) \<subseteq> set ranks"
      using v by simp
    from total [OF this]
    obtain p1 where hp1: "hand_total (if p0 \<le> 5 then [c1, c2, c5] else [c1, c2]) = Inr p1"
      by (rule exE)
    have "(if p0 \<le> 5 then Some c5 else None) = None
        \<or> (\<exists>c. (if p0 \<le> 5 then Some c5 else None) = Some c \<and> c \<in> set ranks)"
      using v by simp
    from banker_draws_ranks [OF this]
    obtain bd where hbd: "banker_draws b0 (if p0 \<le> 5 then Some c5 else None) = Inr bd"
      by (rule exE)
    define k where "k = (if p0 \<le> 5 then c6 else c5)"
    define rest5 where "rest5 = (if p0 \<le> 5 then c6 # rest6 else ?rest)"
    define rest6' where "rest6' = (if bd then tl rest5 else rest5)"
    have k: "k \<in> set ranks"
      using v by (simp add: k_def)
    have "set (if bd then [c3, c4, k] else [c3, c4]) \<subseteq> set ranks"
      using v k by simp
    from total [OF this]
    obtain b1 where hb1: "hand_total (if bd then [c3, c4, k] else [c3, c4]) = Inr b1"
      by (rule exE)
    have r5: "?rest = (if p0 \<le> 5 then c5 # rest5 else rest5)"
      by (simp add: rest5_def)
    have r6: "rest5 = (if bd then k # rest6' else rest6')"
      by (simp add: rest5_def rest6'_def k_def)
    define r where "r = \<lparr>player_hand = (if p0 \<le> 5 then [c1, c2, c5] else [c1, c2]),
        banker_hand = (if bd then [c3, c4, k] else [c3, c4]),
        player_total = p1, banker_total = b1,
        winner = (if p1 > b1 then ''player'' else if b1 > p1 then ''banker'' else ''tie''),
        player_third = (if p0 \<le> 5 then Some c5 else None),
        banker_third = (if bd then Some k else None)\<rparr>"
    have eq: "play_round_baccarat (c1 # c2 # c3 # c4 # ?rest) = Inr (r, rest6')"
      unfolding r_def by (rule play_round_third_cards [OF hp0 hb0 False hp1 hbd hb1 r5 r6])
    have fields: "player_hand r = (if p0 \<le> 5 then [c1, c2, c5] else [c1, c2])"
        "banker_hand r = (if bd then [c3, c4, k] else [c3, c4])"
        "player_total r = p1" "banker_total r = b1"
        "player_third r = (if p0 \<le> 5 then Some c5 else None)"
        "banker_third r = (if bd then Some k else None)"
      by (simp_all add: r_def)
    have win: "winner r = (if player_total r > banker_total r then ''player''
                 else if banker_total r > player_total r then ''banker'' else ''tie'')"
      by (simp add: r_def)
    have hands: "hand_total (player_hand r) = Inr (player_total r)"
        "hand_total (banker_hand r) = Inr (banker_total r)"
      by (simp_all only: fields hp1 hb1)
    have natural: "p0 \<in> {8, 9} \<or> b0 \<in> {8, 9} \<longrightarrow>
               player_hand r = [c1, c2] \<and> banker_hand r = [c3, c4]
               \<and> player_third r = None \<and> banker_third r = None
               \<and> player_total r = p0 \<and> banker_total r = b0
               \<and> rest6' = c5 # c6 # rest6"
      using False by (simp only: simp_thms)
    have left: "rest6' = drop ((if p0 \<le> 5 then 1 else 0) + (if bd then 1 else 0))
        (c5 # c6 # rest6)"
      by (simp add: rest6'_def rest5_def)
    have thirds: "\<not> (p0 \<in> {8, 9} \<or> b0 \<in> {8, 9}) \<longrightarrow>
               player_hand r = (if p0 \<le> 5 then [c1, c2, c5] else [c1, c2])
               \<and> player_third r = (if p0 \<le> 5 then Some c5 else None)
               \<and> banker_draws b0 (player_third r) = Inr bd
               \<and> banker_hand r = (if bd then [c3, c4, if p0 \<le> 5 then c6 else c5] else [c3, c4])
               \<and> banker_third r = (if bd then Some (if p0 \<le> 5 then c6 else c5) else None)
               \<and> rest6' = drop ((if p0 \<le> 5 then 1 else 0) + (if bd then 1 else 0))
                         (c5 # c6 # rest6)"
      by (simp only: fields hbd k_def [symmetric] left [symmetric] simp_thms)
    show ?thesis
      by (rule exI [of _ r], rule exI [of _ rest6'], rule exI [of _ p0], rule exI [of _ b0],
          rule exI [of _ bd])
         (intro conjI eq hp0 hb0 natural thirds hands win)
  qed
qed

theorem play_round_baccarat_rules_witness:
  "set (''9'' # ''6'' # ''K'' # ''3'' # ''2'' # ''5'' # [''7'']) \<subseteq> set ranks
   \<and> play_round_baccarat [''9'', ''6'', ''K'', ''3'', ''2'', ''5'', ''7''] =
       Inr (\<lparr>player_hand = [''9'', ''6'', ''2''], banker_hand = [''K'', ''3'', ''5''],
              player_total = 7, banker_total = 8, winner = ''banker'',
              player_third = Some ''2'', banker_third = Some ''5''\<rparr>, [''7''])"
proof -
  have valid: "set (''9'' # ''6'' # ''K'' # ''3'' # ''2'' # ''5'' # [''7'']) \<subseteq> set ranks"
    by (simp add: ranks_def)
  have run: "play_round_baccarat [''9'', ''6'', ''K'', ''3'', ''2'', ''5'', ''7''] =
       Inr (\<lparr>player_hand = [''9'', ''6'', ''2''], banker_hand = [''K'', ''3'', ''5''],
              player_total = 7, banker_total = 8, winner = ''banker'',
              player_third = Some ''2'', banker_third = Some ''5''\<rparr>, [''7''])"
    by (simp add: play_round_baccarat_def draw_def hand_total_def card_value_def py_int_def
        player_draws_def banker_draws_def)
  from play_round_baccarat_rules [OF valid] run valid show ?thesis
    by simp
qed

section \<open>Properties of blackjack.py\<close>

lemma hand_value_sum_step_RANKS:
  "list_all (\<lambda>r. \<forall>val aces suit hand.
       hand_value_sum val aces ((r, suit) # hand) =
       hand_value_sum (val + spec_rank_value r) (if r = ''A'' then aces + 1 else aces) hand) RANKS"
  unfolding RANKS_def by (simp add: py_int_def spec_rank_value_def)

lemma hand_value_sum_step:
  assumes "r \<in> set RANKS"
  shows "hand_value_sum val aces ((r, suit) # hand) =
         hand_value_sum (val + spec_rank_value r) (if r = ''A'' then aces + 1 else aces) hand"
  using hand_value_sum_step_RANKS assms unfolding list_all_iff by blast

lemma hand_value_sum_RANKS:
  "set (map fst hand) \<subseteq> set RANKS \<Longrightarrow>
   hand_value_sum val aces hand =
     Inr (val + sum_list (map (\<lambda>c. spec_rank_value (fst c)) hand),
          aces + length (filter (\<lambda>c. fst c = ''A'') hand))"
proof (induction hand arbitrary: val aces)
  case Nil
  then show ?case by simp
next
  case (Cons c hand)
  obtain r suit where c: "c = (r, suit)"
    by (cases c)
  from Cons.prems c have r: "r \<in> set RANKS" and rest: "set (map fst hand) \<subseteq> set RANKS"
    by simp_all
  show ?case
    unfolding c hand_value_sum_step [OF r] Cons.IH [OF rest]
    by simp
qed

lemma hand_value_RANKS:
  assumes "set (map fst hand) \<subseteq> set RANKS"
  shows "\<exists>v soft. hand_value hand = Inr (v, soft)"
proof -
  obtain v a where "hand_value_downgrade (sum_list (map (\<lambda>c. spec_rank_value (fst c)) hand))
      (length (filter (\<lambda>c. fst c = ''A'') hand)) = (v, a)"
    by (cases "hand_value_downgrade (sum_list (map (\<lambda>c. spec_rank_value (fst c)) hand))
      (length (filter (\<lambda>c. fst c = ''A'') hand))")
  then show ?thesis
    by (simp add: hand_value_def hand_value_sum_RANKS [OF assms])
qed

lemma is_blackjack_value:
  "hand_value hand = Inr (v, soft) \<Longrightarrow> is_blackjack hand = Inr (v = 21 \<and> length hand = 2)"
  by (simp add: is_blackjack_def)

lemma float_mul_15:
  "\<exists>q s. float_mul bet double_15 = (q, snd bet - 1 + int s)
         \<and> 2 * \<bar>q * 2 ^ s - 3 * fst bet\<bar> \<le> 2 ^ s
         \<and> (\<bar>3 * fst bet\<bar> < 2 ^ 53 \<longrightarrow> s = 0 \<and> q = 3 * fst bet)"
proof -
  define s where "s = snd (round53 (fst bet * 3))"
  define q where "q = fst (round53 (fst bet * 3))"
  have qs: "round53 (fst bet * 3) = (q, s)"
    by (simp add: q_def s_def)
  have mul: "float_mul bet double_15 = (q, snd bet - 1 + int s)"
    by (simp add: float_mul_def double_15_def qs)
  have "q = round_half_even (fst bet * 3) (2 ^ s)"
    by (simp add: q_def s_def round53_def Let_def)
  then have err: "2 * \<bar>q * 2 ^ s - 3 * fst bet\<bar> \<le> 2 ^ s"
    using round_half_even_error [of "2 ^ s" "fst bet * 3"] by (simp add: mult.commute)
  have exact: "\<bar>3 * fst bet\<bar> < 2 ^ 53 \<longrightarrow> s = 0 \<and> q = 3 * fst bet"
  proof
    assume "\<bar>3 * fst bet\<bar> < 2 ^ 53"
    then have "\<bar>fst bet * 3\<bar> < 2 ^ 53"
      by (simp add: mult.commute)
    from round53_exact [OF this] qs show "s = 0 \<and> q = 3 * fst bet"
      by simp
  qed
  from mul err exact show ?thesis
    by blast
qed

lemma settle_bet_blackjack_values:
  assumes "hand_value p_hand = Inr (pv, ps)" and "hand_value d_hand = Inr (dv, ds)"
  shows "settle_bet_blackjack p_hand d_hand bet =
           Inr (if (pv = 21 \<and> length p_hand = 2) \<and> \<not> (dv = 21 \<and> length d_hand = 2)
                then float_mul bet double_15
                else if (pv = 21 \<and> length p_hand = 2) \<and> (dv = 21 \<and> length d_hand = 2)
                then double_0
                else if pv > 21 then float_neg bet
                else if dv > 21 then bet
                else if pv > dv then bet
                else if pv < dv then float_neg bet
                else double_0)"
  using assms by (simp add: settle_bet_blackjack_def is_blackjack_value)

subsection \<open>The soft flag\<close>

text \<open>
  Claim C1, at the hand A + 5.  The loops of \<open>hand_value\<close> end with the sum 16 and one ace
  still counted as 11, so the hand is a soft 16; the flag \<open>hand_value\<close> returns with the
  sum is \<open>False\<close>.
\<close>

theorem hand_value_soft16_not_soft:
  "hand_value_sum 0 0 [(''A'', ''Hearts''), (''5'', ''Spades'')] = Inr (16, 1)
   \<and> hand_value_downgrade 16 1 = (16, 1)
   \<and> hand_value [(''A'', ''Hearts''), (''5'', ''Spades'')] = Inr (16, False)"
  by (simp add: hand_value_def has_ace_def py_int_def hand_value_downgrade.simps)

subsection \<open>Settlement of the 21-style game\<close>

text \<open>
  Claim C3, as stated, at the bet 0.1 (the double \<open>3602879701896397 * 2 ^ - 55\<close>): a
  player natural against a dealer's three-card 21 is paid \<open>5404319552844596 * 2 ^ - 55\<close>,
  which Python prints as 0.15000000000000002; it is not 1.5 times the bet.
\<close>

theorem settle_bet_blackjack_exact_counterexample:
  "settle_bet_blackjack [(''A'', ''Spades''), (''K'', ''Hearts'')]
     [(''7'', ''Clubs''), (''9'', ''Hearts''), (''5'', ''Diamonds'')] (3602879701896397, - 55)
     = Inr (5404319552844596, - 55)
   \<and> double_value (5404319552844596, - 55) \<noteq> 1.5 * double_value (3602879701896397, - 55)"
proof -
  have hp: "hand_value [(''A'', ''Spades''), (''K'', ''Hearts'')] = Inr (21, True)"
    by (simp add: hand_value_def has_ace_def py_int_def hand_value_downgrade.simps)
  have hd: "hand_value [(''7'', ''Clubs''), (''9'', ''Hearts''), (''5'', ''Diamonds'')] = Inr (21, False)"
    by (simp add: hand_value_def has_ace_def py_int_def hand_value_downgrade.simps)
  have product: "float_mul (3602879701896397, - 55) double_15 = (5404319552844596, - 55)"
    by code_simp
  have "settle_bet_blackjack [(''A'', ''Spades''), (''K'', ''Hearts'')]
     [(''7'', ''Clubs''), (''9'', ''Hearts''), (''5'', ''Diamonds'')] (3602879701896397, - 55)
     = Inr (5404319552844596, - 55)"
    by (simp add: settle_bet_blackjack_values [OF hp hd] product)
  moreover have "double_value (5404319552844596, - 55)
      \<noteq> 1.5 * double_value (3602879701896397, - 55)"
    by (simp add: double_value_def)
  ultimately show ?thesis
    by (rule conjI)
qed

text \<open>
  Claim C3, amended.  For hands of cards of the deck and a bet \<open>bet\<close>, \<open>settle_bet\<close>
  evaluates in this order: a player natural (two cards, 21) against a dealer without one
  pays the float product \<open>bet * 1.5\<close>, also when the dealer has 21 with three or more
  cards; two naturals push at 0; a player score above 21 loses the bet, also when the
  dealer is above 21 too; otherwise a dealer score above 21 wins the bet; otherwise the
  higher score wins or loses the bet and equal scores push at 0.  The float product is 1.5
  times the bet rounded to 53 significant bits: it is within half a unit of the last place
  of the exact product, and is the exact product when that has at most 53 bits.  Losing the
  bet is exact: the value of the result is minus the value of the bet.
\<close>

theorem settle_bet_blackjack_order:
  assumes "set (map fst p_hand) \<subseteq> set RANKS" and "set (map fst d_hand) \<subseteq> set RANKS"
    and "double_ok bet"
  shows "\<exists>pv ps dv ds q s.
           hand_value p_hand = Inr (pv, ps) \<and> hand_value d_hand = Inr (dv, ds)
           \<and> settle_bet_blackjack p_hand d_hand bet =
               Inr (if (pv = 21 \<and> length p_hand = 2) \<and> \<not> (dv = 21 \<and> length d_hand = 2)
                    then float_mul bet double_15
                    else if (pv = 21 \<and> length p_hand = 2) \<and> (dv = 21 \<and> length d_hand = 2)
                    then double_0
                    else if pv > 21 then float_neg bet
                    else if dv > 21 then bet
                    else if pv > dv then bet
                    else if pv < dv then float_neg bet
                    else double_0)
           \<and> (pv = 21 \<and> length p_hand = 2 \<and> dv = 21 \<and> 3 \<le> length d_hand
                \<longrightarrow> settle_bet_blackjack p_hand d_hand bet = Inr (float_mul bet double_15))
           \<and> (pv > 21 \<and> dv > 21
                \<longrightarrow> settle_bet_blackjack p_hand d_hand bet = Inr (float_neg bet))
           \<and> float_mul bet double_15 = (q, snd bet - 1 + int s)
           \<and> 2 * \<bar>q * 2 ^ s - 3 * fst bet\<bar> \<le> 2 ^ s
           \<and> (\<bar>3 * fst bet\<bar> < 2 ^ 53 \<longrightarrow> s = 0 \<and> q = 3 * fst bet)
           \<and> double_value (float_neg bet) = - double_value bet
           \<and> double_value double_0 = 0"
proof -
  from hand_value_RANKS [OF assms(1)] obtain pv ps where p: "hand_value p_hand = Inr (pv, ps)"
    by blast
  from hand_value_RANKS [OF assms(2)] obtain dv ds where d: "hand_value d_hand = Inr (dv, ds)"
    by blast
  from float_mul_15 [of bet] obtain q s where
    mul: "float_mul bet double_15 = (q, snd bet - 1 + int s)"
    and err: "2 * \<bar>q * 2 ^ s - 3 * fst bet\<bar> \<le> 2 ^ s"
    and exact: "\<bar>3 * fst bet\<bar> < 2 ^ 53 \<longrightarrow> s = 0 \<and> q = 3 * fst bet"
    by blast
  note settle = settle_bet_blackjack_values [OF p d, of bet]
  have three: "pv = 21 \<and> length p_hand = 2 \<and> dv = 21 \<and> 3 \<le> length d_hand
        \<longrightarrow> settle_bet_blackjack p_hand d_hand bet = Inr (float_mul bet double_15)"
    unfolding settle by simp
  have both: "pv > 21 \<and> dv > 21 \<longrightarrow> settle_bet_blackjack p_hand d_hand bet = Inr (float_neg bet)"
    unfolding settle by simp
  have neg: "double_value (float_neg bet) = - double_value bet"
    by (simp add: double_value_def float_neg_def)
  have zero: "double_value double_0 = 0"
    by (simp add: double_value_def double_0_def)
  show ?thesis
    by (rule exI [of _ pv], rule exI [of _ ps], rule exI [of _ dv], rule exI [of _ ds],
        rule exI [of _ q], rule exI [of _ s])
       (intro conjI p d settle three both mul err exact neg zero)
qed

theorem settle_bet_blackjack_order_witness:
  "set (map fst [(''A'', ''Spades''), (''K'', ''Hearts'')]) \<subseteq> set RANKS
   \<and> set (map fst [(''7'', ''Clubs''), (''9'', ''Hearts''), (''5'', ''Diamonds'')]) \<subseteq> set RANKS
   \<and> double_ok (10, 0)
   \<and> hand_value [(''A'', ''Spades''), (''K'', ''Hearts'')] = Inr (21, True)
   \<and> hand_value [(''7'', ''Clubs''), (''9'', ''Hearts''), (''5'', ''Diamonds'')] = Inr (21, False)
   \<and> settle_bet_blackjack [(''A'', ''Spades''), (''K'', ''Hearts'')]
        [(''7'', ''Clubs''), (''9'', ''Hearts''), (''5'', ''Diamonds'')] (10, 0) = Inr (30, - 1)
   \<and> double_value (30, - 1) = 15"
proof -
  have vp: "set (map fst [(''A'', ''Spades''), (''K'', ''Hearts'')]) \<subseteq> set RANKS"
    by (simp add: RANKS_def)
  have vd: "set (map fst [(''7'', ''Clubs''), (''9'', ''Hearts''), (''5'', ''Diamonds'')]) \<subseteq> set RANKS"
    by (simp add: RANKS_def)
  have ok: "double_ok (10, 0)"
    by (simp add: double_ok_def)
  have hp: "hand_value [(''A'', ''Spades''), (''K'', ''Hearts'')] = Inr (21, True)"
    by (simp add: hand_value_def has_ace_def py_int_def hand_value_downgrade.simps)
  have hd: "hand_value [(''7'', ''Clubs''), (''9'', ''Hearts''), (''5'', ''Diamonds'')] = Inr (21, False)"
    by (simp add: hand_value_def has_ace_def py_int_def hand_value_downgrade.simps)
  have val: "double_value (30, - 1) = 15"
    by (simp add: double_value_def)
  from settle_bet_blackjack_order [OF vp vd ok] hp hd
  have "settle_bet_blackjack [(''A'', ''Spades''), (''K'', ''Hearts'')]
          [(''7'', ''Clubs''), (''9'', ''Hearts''), (''5'', ''Diamonds'')] (10, 0) = Inr (30, - 1)"
    by auto
  with vp vd ok hp hd val show ?thesis
    by blast
qed

end
